theory Spec2Isabelle
  imports
    Main
    "HOL-Library.Sublist"
    "HOL-Library.Char_ord"
    "HOL-Library.List_Lexorder"
    "HOL-Library.Multiset"
begin

section \<open>The prompt server of mcp\_prompt\_server.py\<close>

text \<open>
  A Python \<open>str\<close> is modelled by its UTF-8 encoding, a \<^typ>\<open>string\<close> of 8-bit
  characters. Every operation the server applies to a string reads the same on the
  encoding as on the code points: the character class of the validator is ASCII, so is
  the searched text \<open>..\<close> and the prefix \<open>get_prompt_\<close>, and the byte-wise
  lexicographic order of two UTF-8 strings is their order by code points, which is the
  order Python's \<open>sorted\<close> uses.
\<close>

subsection \<open>Name validator\<close>

text \<open>The character class \<open>[a-zA-Z0-9_]\<close> of the pattern: three ranges and the underscore.\<close>

definition word_class :: "char \<Rightarrow> bool" where
  "word_class c \<longleftrightarrow>
     (CHR ''a'' \<le> c \<and> c \<le> CHR ''z'') \<or>
     (CHR ''A'' \<le> c \<and> c \<le> CHR ''Z'') \<or>
     (CHR ''0'' \<le> c \<and> c \<le> CHR ''9'') \<or>
     c = CHR ''_''"

text \<open>
  \<open>re.fullmatch(r"[a-zA-Z0-9_]+", s)\<close>: one character of the class, then as many more as
  the string has, and nothing may be left over.
\<close>

fun re_fullmatch_class_plus :: "(char \<Rightarrow> bool) \<Rightarrow> string \<Rightarrow> bool" where
  "re_fullmatch_class_plus P [] = False"
| "re_fullmatch_class_plus P [c] = P c"
| "re_fullmatch_class_plus P (c # d # cs) = (P c \<and> re_fullmatch_class_plus P (d # cs))"

text \<open>Python's \<open>needle in haystack\<close> on strings: the needle starts at some position.\<close>

fun str_contains :: "string \<Rightarrow> string \<Rightarrow> bool" where
  "str_contains needle [] = (needle = [])"
| "str_contains needle (c # cs) = (prefix needle (c # cs) \<or> str_contains needle cs)"

definition is_safe_task_name :: "string \<Rightarrow> bool" where
  "is_safe_task_name task_name =
     (if task_name = [] then False
      else if re_fullmatch_class_plus word_class task_name \<and> \<not> str_contains ''..'' task_name
        then True
      else False)"

subsection \<open>Python values and exceptions\<close>

text \<open>
  The values a JSON request can put into the \<open>arguments\<close> dictionary of a tool call
  (\<open>Dict[str, Any]\<close>), and the values of a tool's input schema. JSON numbers with a
  fraction are left out: the server treats them as it treats integers.
\<close>

datatype py_value =
    PyNone
  | PyBool bool
  | PyInt int
  | PyStr string
  | PyList "py_value list"
  | PyDict "(string \<times> py_value) list"

text \<open>Python's truth value of an object, as \<open>if not task_name\<close> tests it.\<close>

fun truthy :: "py_value \<Rightarrow> bool" where
  "truthy PyNone = False"
| "truthy (PyBool b) = b"
| "truthy (PyInt i) = (i \<noteq> 0)"
| "truthy (PyStr s) = (s \<noteq> [])"
| "truthy (PyList xs) = (xs \<noteq> [])"
| "truthy (PyDict kvs) = (kvs \<noteq> [])"

text \<open>
  The exception classes that can arise in the server, with the part of Python's class
  hierarchy an \<open>except\<close> clause sees: \<open>UnicodeDecodeError\<close> is a \<open>ValueError\<close>,
  \<open>FileNotFoundError\<close> is an \<open>OSError\<close>, of which \<open>IOError\<close> is another name, and all
  are an \<open>Exception\<close>. An exception value carries its class and \<open>str(e)\<close>.
\<close>

datatype exn_class =
  Exception | ValueError | UnicodeDecodeError | IOError | FileNotFoundError | TypeError

fun subclass_of :: "exn_class \<Rightarrow> exn_class \<Rightarrow> bool" where
  "subclass_of c Exception = True"
| "subclass_of UnicodeDecodeError ValueError = True"
| "subclass_of FileNotFoundError IOError = True"
| "subclass_of c d = (c = d)"

datatype exn = Exn (exn_class: exn_class) (exn_str: string)

text \<open>
  \<open>try: body except (C1, ..., Cn) as e: handler\<close>. A raised exception is \<open>Inl\<close>; one
  that matches no listed class passes through.
\<close>

definition try_except ::
  "exn + 'a \<Rightarrow> exn_class list \<Rightarrow> (exn \<Rightarrow> exn + 'a) \<Rightarrow> exn + 'a" where
  "try_except body classes handler =
     (case body of
        Inr v \<Rightarrow> Inr v
      | Inl e \<Rightarrow> if list_ex (subclass_of (exn_class e)) classes then handler e else Inl e)"

subsection \<open>The prompts directory and Python's file operations\<close>

text \<open>
  The state of \<open>PROMPTS_DIR\<close>: it is missing, or something other than a directory, or a
  directory with its entries in the order the file system iterates them. An entry is a
  regular file (symbolic links followed), whose bytes can be read or not, or something
  that exists and is not a regular file (a subdirectory, a device), or a dangling link,
  or a path whose \<open>stat\<close> fails with an error that \<open>pathlib\<close> does not take for
  absence. A directory can also be one that may not be listed: \<open>glob\<close> then swallows
  the \<open>PermissionError\<close> of the scan and yields nothing.
\<close>

datatype file_data = Unreadable | Bytes string

datatype node = RegularFile file_data | NonRegular | DanglingLink | StatError

datatype prompts_dir =
    Missing
  | NotADirectory
  | Directory "(string \<times> node) list"
  | Unlistable "(string \<times> node) list"

text \<open>
  The world the server runs in. The directory; the file names under it whose \<open>stat\<close>
  raises an \<open>OSError\<close> other than the four that \<open>Path.exists\<close> and \<open>Path.is_file\<close>
  ignore (\<open>ENAMETOOLONG\<close> for a name longer than the file system allows, \<open>EACCES\<close>
  in a directory without search permission), whether the name is an entry or not; and
  the message texts that the Python runtime (not this repository) gives the exceptions
  it raises itself: \<open>str(e)\<close> of the \<open>OSError\<close> of a failed \<open>stat\<close>, \<open>open\<close> or
  \<open>read\<close> of a path, of the \<open>UnicodeDecodeError\<close> for undecodable bytes, and of the
  \<open>TypeError\<close> of \<open>re.fullmatch\<close> applied to an object that is not a string.
  \<open>PROMPTS_DIR\<close> lies beside the running script, and its own \<open>stat\<close> is taken to
  succeed or to report absence.
\<close>

record world =
  prompts_dir :: prompts_dir
  stat_raises :: "string \<Rightarrow> bool"
  os_error_str :: "string \<Rightarrow> string"
  decode_error_str :: "string \<Rightarrow> string"
  type_error_str :: "py_value \<Rightarrow> string"

definition dir_exists :: "world \<Rightarrow> bool" where
  "dir_exists w = (case prompts_dir w of Missing \<Rightarrow> False | _ \<Rightarrow> True)"

definition dir_is_dir :: "world \<Rightarrow> bool" where
  "dir_is_dir w =
     (case prompts_dir w of Directory es \<Rightarrow> True | Unlistable es \<Rightarrow> True | _ \<Rightarrow> False)"

text \<open>
  What \<open>stat\<close> finds at \<open>PROMPTS_DIR / file_name\<close>, for a file name without a
  separator: \<open>StatError\<close> where it raises, else the entry of that name, if any.
\<close>

definition dir_lookup :: "world \<Rightarrow> string \<Rightarrow> node option" where
  "dir_lookup w file_name =
     (if stat_raises w file_name then Some StatError
      else
        (case prompts_dir w of
           Directory es \<Rightarrow> map_of es file_name
         | Unlistable es \<Rightarrow> map_of es file_name
         | _ \<Rightarrow> None))"

text \<open>
  \<open>Path.exists()\<close> and \<open>Path.is_file()\<close>: both call \<open>stat\<close>, answer \<open>False\<close> for
  the errors that mean absence, and raise every other \<open>OSError\<close> again.
\<close>

definition path_exists :: "world \<Rightarrow> string \<Rightarrow> exn + bool" where
  "path_exists w file_name =
     (case dir_lookup w file_name of
        None \<Rightarrow> Inr False
      | Some DanglingLink \<Rightarrow> Inr False
      | Some StatError \<Rightarrow> Inl (Exn IOError (os_error_str w file_name))
      | Some _ \<Rightarrow> Inr True)"

definition path_is_file :: "world \<Rightarrow> string \<Rightarrow> exn + bool" where
  "path_is_file w file_name =
     (case dir_lookup w file_name of
        Some (RegularFile d) \<Rightarrow> Inr True
      | Some StatError \<Rightarrow> Inl (Exn IOError (os_error_str w file_name))
      | _ \<Rightarrow> Inr False)"

text \<open>
  \<open>PROMPTS_DIR.glob("*.txt")\<close>: the names of the entries, of any kind, that end in
  \<open>.txt\<close>, in iteration order (POSIX: the match is case sensitive); nothing for a
  directory that may not be listed.
\<close>

definition glob_txt :: "world \<Rightarrow> string list" where
  "glob_txt w =
     (case prompts_dir w of
        Directory es \<Rightarrow> filter (suffix ''.txt'') (map fst es)
      | Unlistable es \<Rightarrow> []
      | _ \<Rightarrow> [])"

text \<open>
  \<open>Path.stem\<close>: the name up to its last dot, unless that dot is the first or the last
  character of the name or there is none.
\<close>

fun rfind :: "char \<Rightarrow> string \<Rightarrow> nat option" where
  "rfind c [] = None"
| "rfind c (x # xs) =
     (case rfind c xs of
        Some i \<Rightarrow> Some (Suc i)
      | None \<Rightarrow> if x = c then Some 0 else None)"

definition stem :: "string \<Rightarrow> string" where
  "stem file_name =
     (case rfind CHR ''.'' file_name of
        Some i \<Rightarrow> if 0 < i \<and> i < length file_name - 1 then take i file_name else file_name
      | None \<Rightarrow> file_name)"

text \<open>
  Strict UTF-8, as the \<open>utf-8\<close> codec decodes with \<open>errors="strict"\<close>: no overlong
  form, no surrogate, nothing above U+10FFFF, no truncated sequence.
\<close>

definition in_range :: "char \<Rightarrow> char \<Rightarrow> char \<Rightarrow> bool" where
  "in_range lo hi c \<longleftrightarrow> lo \<le> c \<and> c \<le> hi"

fun utf8_valid :: "string \<Rightarrow> bool" where
  "utf8_valid [] = True"
| "utf8_valid (b0 # rest) =
     (if b0 \<le> CHR 0x7F then utf8_valid rest
      else if in_range (CHR 0xC2) (CHR 0xDF) b0 then
        (case rest of
           b1 # r \<Rightarrow> in_range (CHR 0x80) (CHR 0xBF) b1 \<and> utf8_valid r
         | _ \<Rightarrow> False)
      else if in_range (CHR 0xE0) (CHR 0xEF) b0 then
        (case rest of
           b1 # b2 # r \<Rightarrow>
             in_range (if b0 = CHR 0xE0 then CHR 0xA0 else CHR 0x80)
                      (if b0 = CHR 0xED then CHR 0x9F else CHR 0xBF) b1
             \<and> in_range (CHR 0x80) (CHR 0xBF) b2 \<and> utf8_valid r
         | _ \<Rightarrow> False)
      else if in_range (CHR 0xF0) (CHR 0xF4) b0 then
        (case rest of
           b1 # b2 # b3 # r \<Rightarrow>
             in_range (if b0 = CHR 0xF0 then CHR 0x90 else CHR 0x80)
                      (if b0 = CHR 0xF4 then CHR 0x8F else CHR 0xBF) b1
             \<and> in_range (CHR 0x80) (CHR 0xBF) b2 \<and> in_range (CHR 0x80) (CHR 0xBF) b3
             \<and> utf8_valid r
         | _ \<Rightarrow> False)
      else False)"

text \<open>
  Universal newlines, the default of a file opened in text mode (\<open>newline=None\<close>):
  on reading, \<open>\r\n\<close> and a lone \<open>\r\<close> both become \<open>\n\<close>.
\<close>

fun universal_newlines :: "string \<Rightarrow> string" where
  "universal_newlines [] = []"
| "universal_newlines (c # cs) =
     (if c = CHR 0x0D then
        (case cs of
           d # ds \<Rightarrow>
             if d = CHR 0x0A then CHR 0x0A # universal_newlines ds
             else CHR 0x0A # universal_newlines cs
         | [] \<Rightarrow> [CHR 0x0A])
      else c # universal_newlines cs)"

text \<open>
  \<open>with open(path, "r", encoding="utf-8") as f: return f.read()\<close>, for the node at the
  path: an \<open>OSError\<close> (of which \<open>FileNotFoundError\<close> is one) when the file cannot be
  opened or read, a \<open>UnicodeDecodeError\<close> when its bytes are not UTF-8, else its text
  after newline translation. Text is kept in its UTF-8 encoding, so decoding well-formed
  bytes changes nothing.
\<close>

definition open_read :: "world \<Rightarrow> string \<Rightarrow> exn + string" where
  "open_read w file_name =
     (case dir_lookup w file_name of
        None \<Rightarrow> Inl (Exn FileNotFoundError (os_error_str w file_name))
      | Some DanglingLink \<Rightarrow> Inl (Exn FileNotFoundError (os_error_str w file_name))
      | Some NonRegular \<Rightarrow> Inl (Exn IOError (os_error_str w file_name))
      | Some StatError \<Rightarrow> Inl (Exn IOError (os_error_str w file_name))
      | Some (RegularFile Unreadable) \<Rightarrow> Inl (Exn IOError (os_error_str w file_name))
      | Some (RegularFile (Bytes bs)) \<Rightarrow>
          if utf8_valid bs then Inr (universal_newlines bs)
          else Inl (Exn UnicodeDecodeError (decode_error_str w bs)))"

subsection \<open>Catalog and loader\<close>

definition get_available_prompts :: "world \<Rightarrow> string list" where
  "get_available_prompts w =
     (if \<not> dir_exists w \<or> \<not> dir_is_dir w then []
      else sort (filter is_safe_task_name (map stem (glob_txt w))))"

text \<open>
  In \<open>read_prompt_content\<close> the test \<open>not exists() or not is_file()\<close> stands before
  the \<open>try\<close>: \<open>is_file\<close> is called only when \<open>exists\<close> answered \<open>True\<close>, and an
  \<open>OSError\<close> raised by either leaves the function as it is.
\<close>

definition read_prompt_content :: "world \<Rightarrow> string \<Rightarrow> exn + string" where
  "read_prompt_content w task_name =
     (if \<not> is_safe_task_name task_name
        then Inl (Exn ValueError (''Invalid task name: '' @ task_name))
      else
        let prompt_file_path = task_name @ ''.txt'' in
        (case path_exists w prompt_file_path of
           Inl e \<Rightarrow> Inl e
         | Inr found \<Rightarrow>
             if \<not> found
               then Inl (Exn FileNotFoundError (''Prompt not found for task: '' @ task_name))
             else
               (case path_is_file w prompt_file_path of
                  Inl e \<Rightarrow> Inl e
                | Inr regular \<Rightarrow>
                    if \<not> regular
                      then Inl (Exn FileNotFoundError
                                 (''Prompt not found for task: '' @ task_name))
                    else
                      try_except (open_read w prompt_file_path) [IOError]
                        (\<lambda>e. Inl (Exn IOError
                               (''Error reading prompt file for task: '' @ task_name))))))"

subsection \<open>Tool listing\<close>

datatype tool = Tool (tool_name: string) (tool_description: string) (tool_inputSchema: py_value)

text \<open>\<open>s.replace(old, new)\<close> for single characters, and \<open>sep.join(xs)\<close>.\<close>

definition str_replace :: "char \<Rightarrow> char \<Rightarrow> string \<Rightarrow> string" where
  "str_replace old new s = map (\<lambda>c. if c = old then new else c) s"

fun str_join :: "string \<Rightarrow> string list \<Rightarrow> string" where
  "str_join sep [] = []"
| "str_join sep [x] = x"
| "str_join sep (x # y # ys) = x @ sep @ str_join sep (y # ys)"

definition no_arguments_schema :: py_value where
  "no_arguments_schema =
     PyDict [(''type'', PyStr ''object''), (''properties'', PyDict []), (''required'', PyList [])]"

definition prompt_tool :: "string \<Rightarrow> tool" where
  "prompt_tool prompt_name =
     Tool (''get_prompt_'' @ prompt_name)
       (''Fetches the '' @ [CHR 0x27] @ prompt_name @ [CHR 0x27]
          @ '' prompt template. This provides a structured template for ''
          @ str_replace CHR ''_'' CHR '' '' prompt_name @ '' tasks.'')
       no_arguments_schema"

definition list_tools :: "world \<Rightarrow> tool list" where
  "list_tools w =
     (let available_prompts = get_available_prompts w in
      [Tool ''list_available_prompts''
         ''Lists all available prompt templates that can be fetched. Use this to discover what prompts are available.''
         no_arguments_schema]
      @ map prompt_tool available_prompts
      @ [Tool ''get_prompt_by_name''
           ''Fetches a specific prompt template by its task name. Use this when you know the exact name of the prompt you want.''
           (PyDict
              [(''type'', PyStr ''object''),
               (''properties'',
                  PyDict
                    [(''task_name'',
                        PyDict
                          [(''type'', PyStr ''string''),
                           (''description'',
                              PyStr ''The name of the task/prompt to fetch (e.g., 'create_prd', 'review_tasks')'')])]),
               (''required'', PyList [PyStr ''task_name''])])])"

subsection \<open>Dispatcher\<close>

datatype text_content = TextContent (content_type: string) (content_text: string)

text \<open>The text of a successful fetch: a header naming the task, a blank line, the content.\<close>

definition prompt_text :: "string \<Rightarrow> string \<Rightarrow> string" where
  "prompt_text task_name prompt_content =
     ''Prompt for '' @ [CHR 0x27] @ task_name @ [CHR 0x27] @ '':\<newline>\<newline>'' @ prompt_content"

text \<open>
  The body of the \<open>try\<close> block of \<open>call_tool\<close>. In the \<open>get_prompt_by_name\<close> branch
  \<open>arguments.get("task_name")\<close> is \<open>None\<close> for an absent key, and any false value is
  answered as missing. A true value that is not a string reaches \<open>re.fullmatch\<close> through
  \<open>read_prompt_content\<close> and \<open>is_safe_task_name\<close> (whose \<open>if not task_name\<close> it
  passes) and raises \<open>TypeError\<close> there, which the inner \<open>except\<close> does not list.
\<close>

definition call_tool_try ::
  "world \<Rightarrow> string \<Rightarrow> (string \<rightharpoonup> py_value) \<Rightarrow> exn + text_content list" where
  "call_tool_try w name arguments =
     (if name = ''list_available_prompts'' then
        let available_prompts = get_available_prompts w;
            prompt_list = str_join ''\<newline>'' (map (\<lambda>prompt. ''- '' @ prompt) available_prompts)
        in Inr [TextContent ''text''
             (''Available prompts:\<newline>'' @ prompt_list
                @ ''\<newline>\<newline>Use 'get_prompt_by_name' with the task_name parameter, or use the specific 'get_prompt_[name]' tools to fetch individual prompts.'')]
      else if name = ''get_prompt_by_name'' then
        let task_name = (case arguments ''task_name'' of None \<Rightarrow> PyNone | Some v \<Rightarrow> v) in
        if \<not> truthy task_name then
          Inr [TextContent ''text'' ''Error: task_name parameter is required'']
        else
          try_except
            (case task_name of
               PyStr s \<Rightarrow>
                 (case read_prompt_content w s of
                    Inl e \<Rightarrow> Inl e
                  | Inr prompt_content \<Rightarrow>
                      Inr [TextContent ''text'' (prompt_text s prompt_content)])
             | v \<Rightarrow> Inl (Exn TypeError (type_error_str w v)))
            [ValueError, FileNotFoundError, IOError]
            (\<lambda>e. Inr [TextContent ''text'' (''Error: '' @ exn_str e)])
      else if prefix ''get_prompt_'' name then
        let task_name = drop (length ''get_prompt_'') name in
        try_except
          (case read_prompt_content w task_name of
             Inl e \<Rightarrow> Inl e
           | Inr prompt_content \<Rightarrow>
               Inr [TextContent ''text'' (prompt_text task_name prompt_content)])
          [ValueError, FileNotFoundError, IOError]
          (\<lambda>e. Inr [TextContent ''text'' (''Error: '' @ exn_str e)])
      else
        Inr [TextContent ''text'' (''Error: Unknown tool '' @ [CHR 0x27] @ name @ [CHR 0x27])])"

text \<open>\<open>call_tool\<close>: the block above under \<open>except Exception as e\<close>.\<close>

definition call_tool ::
  "world \<Rightarrow> string \<Rightarrow> (string \<rightharpoonup> py_value) \<Rightarrow> exn + text_content list" where
  "call_tool w name arguments =
     try_except (call_tool_try w name arguments) [Exception]
       (\<lambda>e. Inr [TextContent ''text'' (''Unexpected error: '' @ exn_str e)])"

subsection \<open>Example worlds\<close>

text \<open>
  Sample worlds used as concrete inputs: a file system whose names are at most 255
  bytes long, sample message texts of the runtime, and two directories.
\<close>

definition sample_world :: "prompts_dir \<Rightarrow> world" where
  "sample_world d =
     \<lparr>prompts_dir = d,
      stat_raises = (\<lambda>p. 255 < length p),
      os_error_str =
        (\<lambda>p. if 255 < length p then ''[Errno 36] File name too long: '' @ p
             else ''[Errno 13] Permission denied: '' @ p),
      decode_error_str = (\<lambda>bs. ''utf-8 codec cannot decode the bytes''),
      type_error_str = (\<lambda>v. ''expected string or bytes-like object'')\<rparr>"

definition two_prompts :: "(string \<times> node) list" where
  "two_prompts =
     [(''review_tasks.txt'', RegularFile (Bytes ''Review every task.'')),
      (''create_prd.txt'', RegularFile (Bytes ''Write the PRD.''))]"

definition mixed_dir :: "(string \<times> node) list" where
  "mixed_dir =
     [(''review_tasks.txt'', RegularFile (Bytes ''Review every task.'')),
      (''README.md'', RegularFile (Bytes ''About the prompts.'')),
      (''by_name.txt'', RegularFile (Bytes ''Shadowed.'')),
      (''draft v2.txt'', RegularFile (Bytes ''Not listed.'')),
      (''crlf.txt'', RegularFile (Bytes [CHR ''a'', CHR 0x0D, CHR 0x0A, CHR ''b''])),
      (''bad.txt'', RegularFile (Bytes [CHR 0xFF])),
      (''locked.txt'', RegularFile Unreadable),
      (''archive.txt'', NonRegular),
      (''create_prd.txt'', RegularFile (Bytes ''Write the PRD.''))]"

section \<open>Properties\<close>

subsection \<open>Name validator\<close>

lemma re_fullmatch_class_plus_iff:
  "re_fullmatch_class_plus P s \<longleftrightarrow> s \<noteq> [] \<and> list_all P s"
  by (induction P s rule: re_fullmatch_class_plus.induct) auto

lemma str_contains_iff:
  "str_contains needle s \<longleftrightarrow> (\<exists>u v. s = u @ needle @ v)"
proof (induction s)
  case Nil
  then show ?case by auto
next
  case (Cons c cs)
  show ?case
  proof
    assume "str_contains needle (c # cs)"
    then consider "prefix needle (c # cs)" | "str_contains needle cs" by auto
    then show "\<exists>u v. c # cs = u @ needle @ v"
    proof cases
      case 1
      then obtain v where "c # cs = needle @ v" by (auto simp: prefix_def)
      then have "c # cs = [] @ needle @ v" by simp
      then show ?thesis by blast
    next
      case 2
      with Cons.IH obtain u v where "cs = u @ needle @ v" by blast
      then have "c # cs = (c # u) @ needle @ v" by simp
      then show ?thesis by blast
    qed
  next
    assume "\<exists>u v. c # cs = u @ needle @ v"
    then obtain u v where uv: "c # cs = u @ needle @ v" by blast
    show "str_contains needle (c # cs)"
    proof (cases u)
      case Nil
      with uv have "prefix needle (c # cs)" by (simp add: prefix_def)
      then show ?thesis by simp
    next
      case (Cons a u')
      with uv have "cs = u' @ needle @ v" by simp
      with Cons.IH have "str_contains needle cs" by blast
      then show ?thesis by simp
    qed
  qed
qed

lemma word_class_not_dot: "\<not> word_class CHR ''.''"
  by (simp add: word_class_def)

lemma is_safe_task_name_iff_class:
  "is_safe_task_name s \<longleftrightarrow> s \<noteq> [] \<and> list_all word_class s"
proof -
  have "\<not> str_contains ''..'' s" if "list_all word_class s"
  proof
    assume "str_contains ''..'' s"
    then obtain u v where "s = u @ ''..'' @ v" by (auto simp: str_contains_iff)
    with that have "word_class CHR ''.''" by simp
    then show False by (simp add: word_class_not_dot)
  qed
  then show ?thesis
    by (auto simp: is_safe_task_name_def re_fullmatch_class_plus_iff)
qed

text \<open>
  Claim C1. The name validator accepts a string exactly when the string is not empty, each
  of its characters is in \<open>[A-Za-z0-9_]\<close> (the match covers the whole string), and the
  two characters \<open>..\<close> occur nowhere in it. It rejects the empty string, \<open>a/b\<close> and
  \<open>a..b\<close>, and accepts \<open>task_1\<close>.
\<close>

theorem is_safe_task_name_spec:
  "(is_safe_task_name s \<longleftrightarrow>
      s \<noteq> [] \<and> (\<forall>c \<in> set s. word_class c) \<and> \<not> (\<exists>u v. s = u @ ''..'' @ v))
   \<and> \<not> is_safe_task_name ''''
   \<and> \<not> is_safe_task_name ''a/b''
   \<and> \<not> is_safe_task_name ''a..b''
   \<and> is_safe_task_name ''task_1''"
proof -
  have "is_safe_task_name s \<longleftrightarrow>
      s \<noteq> [] \<and> (\<forall>c \<in> set s. word_class c) \<and> \<not> (\<exists>u v. s = u @ ''..'' @ v)"
    by (auto simp: is_safe_task_name_def re_fullmatch_class_plus_iff str_contains_iff
        list_all_iff)
  moreover have "\<not> is_safe_task_name ''''"
    by (simp add: is_safe_task_name_def)
  moreover have "\<not> is_safe_task_name ''a/b''"
    by (simp add: is_safe_task_name_iff_class word_class_def)
  moreover have "\<not> is_safe_task_name ''a..b''"
    by (simp add: is_safe_task_name_iff_class word_class_def)
  moreover have "is_safe_task_name ''task_1''"
    by (simp add: is_safe_task_name_iff_class word_class_def)
  ultimately show ?thesis by blast
qed

theorem is_safe_task_name_spec_witness:
  "is_safe_task_name ''create_prd''
   \<and> list_all word_class ''create_prd''
   \<and> \<not> (\<exists>u v. ''create_prd'' = u @ ''..'' @ v)"
proof -
  have "is_safe_task_name ''create_prd''"
    by (simp add: is_safe_task_name_iff_class word_class_def)
  with is_safe_task_name_spec [of "''create_prd''"] show ?thesis
    unfolding list_all_iff by blast
qed

subsection \<open>Catalog\<close>

lemma rfind_dot_txt: "rfind CHR ''.'' (p @ ''.txt'') = Some (length p)"
  by (induction p) simp_all

lemma stem_txt: "stem (p @ ''.txt'') = (if p = [] then ''.txt'' else p)"
  by (simp add: stem_def rfind_dot_txt)

lemma not_safe_dot_txt: "\<not> is_safe_task_name ''.txt''"
  by (simp add: is_safe_task_name_iff_class word_class_def)

lemma safe_stems:
  "set (filter is_safe_task_name (map stem (filter (suffix ''.txt'') names))) =
     {n. is_safe_task_name n \<and> n @ ''.txt'' \<in> set names}"
proof (intro set_eqI iffI)
  fix n
  assume "n \<in> set (filter is_safe_task_name (map stem (filter (suffix ''.txt'') names)))"
  then obtain f where f: "f \<in> set names" "suffix ''.txt'' f" "n = stem f" "is_safe_task_name n"
    by auto
  from f(2) obtain p where p: "f = p @ ''.txt''" by (auto simp: suffix_def)
  with f(3,4) have "p \<noteq> []" by (auto simp: stem_txt not_safe_dot_txt)
  with p f(3) have "n = p" by (simp add: stem_txt)
  with p f show "n \<in> {n. is_safe_task_name n \<and> n @ ''.txt'' \<in> set names}" by simp
next
  fix n
  assume "n \<in> {n. is_safe_task_name n \<and> n @ ''.txt'' \<in> set names}"
  then have n: "is_safe_task_name n" "n @ ''.txt'' \<in> set names" by auto
  then have "n \<noteq> []" by (auto simp: is_safe_task_name_def)
  then have "stem (n @ ''.txt'') = n" by (simp add: stem_txt)
  moreover have "suffix ''.txt'' (n @ ''.txt'')" by (simp add: suffix_def)
  ultimately show "n \<in> set (filter is_safe_task_name (map stem (filter (suffix ''.txt'') names)))"
    using n by force
qed

lemma get_available_prompts_Directory:
  "prompts_dir w = Directory es \<Longrightarrow>
     get_available_prompts w =
       sort (filter is_safe_task_name (map stem (filter (suffix ''.txt'') (map fst es))))"
  by (simp add: get_available_prompts_def dir_exists_def dir_is_dir_def glob_txt_def)


lemma set_get_available_prompts:
  "prompts_dir w = Directory es \<Longrightarrow>
     set (get_available_prompts w) = {n. is_safe_task_name n \<and> n @ ''.txt'' \<in> fst ` set es}"
  using safe_stems [of "map fst es"] by (simp add: get_available_prompts_Directory)

lemma sorted_get_available_prompts: "sorted (get_available_prompts w)"
  by (simp add: get_available_prompts_def)









subsection \<open>Loader\<close>

lemma read_prompt_content_invalid:
  "\<not> is_safe_task_name n \<Longrightarrow>
     read_prompt_content w n = Inl (Exn ValueError (''Invalid task name: '' @ n))"
  by (simp add: read_prompt_content_def)

lemma read_prompt_content_not_found:
  assumes "is_safe_task_name n"
    and "dir_lookup w (n @ ''.txt'') = None \<or> dir_lookup w (n @ ''.txt'') = Some NonRegular
         \<or> dir_lookup w (n @ ''.txt'') = Some DanglingLink"
  shows "read_prompt_content w n = Inl (Exn FileNotFoundError (''Prompt not found for task: '' @ n))"
  using assms by (auto simp: read_prompt_content_def path_exists_def path_is_file_def)

lemma read_prompt_content_stat_error:
  assumes "is_safe_task_name n" and "dir_lookup w (n @ ''.txt'') = Some StatError"
  shows "read_prompt_content w n = Inl (Exn IOError (os_error_str w (n @ ''.txt'')))"
  using assms by (simp add: read_prompt_content_def path_exists_def)

lemma read_prompt_content_regular:
  assumes "is_safe_task_name n" and "dir_lookup w (n @ ''.txt'') = Some (RegularFile d)"
  shows "read_prompt_content w n =
     try_except (open_read w (n @ ''.txt'')) [IOError]
       (\<lambda>e. Inl (Exn IOError (''Error reading prompt file for task: '' @ n)))"
  using assms by (simp add: read_prompt_content_def path_exists_def path_is_file_def)

lemma read_prompt_content_unreadable:
  assumes "is_safe_task_name n" and "dir_lookup w (n @ ''.txt'') = Some (RegularFile Unreadable)"
  shows "read_prompt_content w n =
     Inl (Exn IOError (''Error reading prompt file for task: '' @ n))"
  using assms by (simp add: read_prompt_content_regular open_read_def try_except_def)

lemma read_prompt_content_undecodable:
  assumes "is_safe_task_name n" and "dir_lookup w (n @ ''.txt'') = Some (RegularFile (Bytes bs))"
    and "\<not> utf8_valid bs"
  shows "read_prompt_content w n = Inl (Exn UnicodeDecodeError (decode_error_str w bs))"
  using assms by (simp add: read_prompt_content_regular open_read_def try_except_def)

lemma read_prompt_content_text:
  assumes "is_safe_task_name n" and "dir_lookup w (n @ ''.txt'') = Some (RegularFile (Bytes bs))"
    and "utf8_valid bs"
  shows "read_prompt_content w n = Inr (universal_newlines bs)"
  using assms by (simp add: read_prompt_content_regular open_read_def try_except_def)

lemma universal_newlines_no_cr:
  "CHR 0x0D \<notin> set bs \<Longrightarrow> universal_newlines bs = bs"
  by (induction bs) auto

lemma universal_newlines_cr_free: "CHR 0x0D \<notin> set (universal_newlines bs)"
  by (induction bs rule: universal_newlines.induct) (auto split: list.splits)

lemma universal_newlines_changes:
  "CHR 0x0D \<in> set bs \<Longrightarrow> universal_newlines bs \<noteq> bs"
  using universal_newlines_cr_free [of bs] by auto

text \<open>Every outcome of the loader: a text, or an exception of one of four classes.\<close>

lemma read_prompt_content_cases:
  "(\<exists>t. read_prompt_content w n = Inr t)
   \<or> (\<exists>m. read_prompt_content w n = Inl (Exn ValueError m))
   \<or> (\<exists>m. read_prompt_content w n = Inl (Exn FileNotFoundError m))
   \<or> (\<exists>m. read_prompt_content w n = Inl (Exn IOError m))
   \<or> (\<exists>m. read_prompt_content w n = Inl (Exn UnicodeDecodeError m))"
proof (cases "is_safe_task_name n")
  case False
  then show ?thesis by (simp add: read_prompt_content_invalid)
next
  case True
  show ?thesis
  proof (cases "dir_lookup w (n @ ''.txt'')")
    case None
    with True show ?thesis by (simp add: read_prompt_content_not_found)
  next
    case (Some nd)
    show ?thesis
    proof (cases nd)
      case (RegularFile d)
      show ?thesis
      proof (cases d)
        case Unreadable
        with True Some RegularFile show ?thesis by (simp add: read_prompt_content_unreadable)
      next
        case (Bytes bs)
        with True Some RegularFile show ?thesis
          by (cases "utf8_valid bs")
            (simp_all add: read_prompt_content_text read_prompt_content_undecodable)
      qed
    next
      case NonRegular
      with True Some show ?thesis by (simp add: read_prompt_content_not_found)
    next
      case DanglingLink
      with True Some show ?thesis by (simp add: read_prompt_content_not_found)
    next
      case StatError
      with True Some show ?thesis by (simp add: read_prompt_content_stat_error)
    qed
  qed
qed

lemma lookup_mixed_bad:
  "dir_lookup (sample_world (Directory mixed_dir)) ''bad.txt'' = Some (RegularFile (Bytes [CHR 0xFF]))"
  by (simp add: dir_lookup_def sample_world_def mixed_dir_def)

lemma not_valid_ff: "\<not> utf8_valid [CHR 0xFF]"
  by (simp add: in_range_def)

lemma safe_bad: "is_safe_task_name ''bad''"
  by (simp add: is_safe_task_name_iff_class word_class_def)

text \<open>
  Claim C2. The loader has three failure kinds of its own: a \<open>ValueError\<close> for a name
  the validator rejects, whatever the directory holds (\<open>read_prompt_content_invalid\<close>);
  a \<open>FileNotFoundError\<close> for a valid name without a regular file
  (\<open>read_prompt_content_not_found\<close>); an \<open>IOError\<close> for a file that cannot be opened or
  read (\<open>read_prompt_content_unreadable\<close>). They are not exhaustive. A regular, readable
  file whose bytes are not UTF-8 makes \<open>f.read()\<close> raise \<open>UnicodeDecodeError\<close>, which
  \<open>except IOError\<close> does not catch: for the valid name \<open>bad\<close> and the one-byte file
  \<open>bad.txt\<close> the loader fails with an exception that is none of the three. (An
  \<open>OSError\<close> of \<open>exists()\<close> or \<open>is_file()\<close>, raised before the \<open>try\<close>, leaves the
  loader unwrapped in the same way: \<open>read_prompt_content_stat_error\<close>.)
\<close>

theorem read_prompt_content_undecodable_file:
  "is_safe_task_name ''bad''
   \<and> dir_lookup (sample_world (Directory mixed_dir)) ''bad.txt'' =
       Some (RegularFile (Bytes [CHR 0xFF]))
   \<and> read_prompt_content (sample_world (Directory mixed_dir)) ''bad'' =
       Inl (Exn UnicodeDecodeError
             (decode_error_str (sample_world (Directory mixed_dir)) [CHR 0xFF]))
   \<and> read_prompt_content (sample_world (Directory mixed_dir)) ''bad'' \<notin>
       {Inl (Exn ValueError ''Invalid task name: bad''),
        Inl (Exn FileNotFoundError ''Prompt not found for task: bad''),
        Inl (Exn IOError ''Error reading prompt file for task: bad'')}"
proof -
  have "read_prompt_content (sample_world (Directory mixed_dir)) ''bad'' =
      Inl (Exn UnicodeDecodeError
            (decode_error_str (sample_world (Directory mixed_dir)) [CHR 0xFF]))"
    using read_prompt_content_undecodable [OF _ _ not_valid_ff, of "''bad''"]
    by (simp add: safe_bad lookup_mixed_bad)
  then show ?thesis by (simp add: safe_bad lookup_mixed_bad)
qed

theorem read_prompt_content_undecodable_file_witness:
  "exn_class (projl (read_prompt_content (sample_world (Directory mixed_dir)) ''bad'')) =
     UnicodeDecodeError"
  using read_prompt_content_undecodable_file by simp

lemma lookup_mixed_crlf:
  "dir_lookup (sample_world (Directory mixed_dir)) ''crlf.txt'' =
     Some (RegularFile (Bytes [CHR ''a'', CHR 0x0D, CHR 0x0A, CHR ''b'']))"
  by (simp add: dir_lookup_def sample_world_def mixed_dir_def)

lemma valid_crlf: "utf8_valid [CHR ''a'', CHR 0x0D, CHR 0x0A, CHR ''b'']"
  by simp

lemma safe_crlf: "is_safe_task_name ''crlf''"
  by (simp add: is_safe_task_name_iff_class word_class_def)

lemma safe_create_prd: "is_safe_task_name ''create_prd''"
  by (simp add: is_safe_task_name_iff_class word_class_def)

lemma lookup_two_create_prd:
  "dir_lookup (sample_world (Directory two_prompts)) ''create_prd.txt'' =
     Some (RegularFile (Bytes ''Write the PRD.''))"
  by (simp add: dir_lookup_def sample_world_def two_prompts_def)

lemma valid_prd: "utf8_valid ''Write the PRD.''"
  by simp

text \<open>
  Claim C6, as stated, fails: the file is opened in text mode with the default newline
  handling, so the loader returns the decoded text with every \<open>\r\n\<close> and every lone
  \<open>\r\<close> replaced by \<open>\n\<close>. For the valid name \<open>crlf\<close> and the readable UTF-8 file
  \<open>crlf.txt\<close> with the four bytes \<open>a \r \n b\<close> it returns the three characters
  \<open>a \n b\<close>, not the contents of the file.
\<close>

theorem read_prompt_content_translates_newlines:
  "is_safe_task_name ''crlf''
   \<and> dir_lookup (sample_world (Directory mixed_dir)) ''crlf.txt'' =
       Some (RegularFile (Bytes [CHR ''a'', CHR 0x0D, CHR 0x0A, CHR ''b'']))
   \<and> utf8_valid [CHR ''a'', CHR 0x0D, CHR 0x0A, CHR ''b'']
   \<and> read_prompt_content (sample_world (Directory mixed_dir)) ''crlf'' =
       Inr [CHR ''a'', CHR 0x0A, CHR ''b'']
   \<and> read_prompt_content (sample_world (Directory mixed_dir)) ''crlf'' \<noteq>
       Inr [CHR ''a'', CHR 0x0D, CHR 0x0A, CHR ''b'']"
proof -
  have "read_prompt_content (sample_world (Directory mixed_dir)) ''crlf'' =
      Inr (universal_newlines [CHR ''a'', CHR 0x0D, CHR 0x0A, CHR ''b''])"
    by (rule read_prompt_content_text [OF safe_crlf _ valid_crlf])
      (simp add: lookup_mixed_crlf)
  then have "read_prompt_content (sample_world (Directory mixed_dir)) ''crlf'' =
      Inr [CHR ''a'', CHR 0x0A, CHR ''b'']"
    by simp
  then show ?thesis
    by (simp add: safe_crlf lookup_mixed_crlf)
qed

text \<open>
  Claim C6, amended. For a valid task name whose file is a regular, readable file of
  well-formed UTF-8, the loader returns the decoded contents with universal-newline
  translation and no other change; a file without a carriage return is returned exactly
  as it is. The result is determined by that one file: any world in which the file is
  the same gives the same result, so repeated loads of an unchanged file agree.
\<close>

theorem read_prompt_content_returns_text:
  assumes "is_safe_task_name n"
    and "dir_lookup w (n @ ''.txt'') = Some (RegularFile (Bytes bs))"
    and "utf8_valid bs"
  shows "read_prompt_content w n = Inr (universal_newlines bs)
    \<and> (CHR 0x0D \<notin> set bs \<longrightarrow> read_prompt_content w n = Inr bs)
    \<and> (CHR 0x0D \<in> set bs \<longrightarrow> read_prompt_content w n \<noteq> Inr bs)
    \<and> (\<forall>w'. dir_lookup w' (n @ ''.txt'') = dir_lookup w (n @ ''.txt'')
          \<longrightarrow> read_prompt_content w' n = read_prompt_content w n)"
proof -
  have r: "read_prompt_content w n = Inr (universal_newlines bs)"
    using assms by (rule read_prompt_content_text)
  have same: "read_prompt_content w' n = read_prompt_content w n"
    if "dir_lookup w' (n @ ''.txt'') = dir_lookup w (n @ ''.txt'')" for w'
  proof -
    from that assms(2)
    have "dir_lookup w' (n @ ''.txt'') = Some (RegularFile (Bytes bs))" by simp
    with assms(1) have "read_prompt_content w' n = Inr (universal_newlines bs)"
      using assms(3) by (rule read_prompt_content_text)
    with r show ?thesis by simp
  qed
  have exact: "read_prompt_content w n = Inr bs" if "CHR 0x0D \<notin> set bs"
    using r that by (simp add: universal_newlines_no_cr)
  have changed: "read_prompt_content w n \<noteq> Inr bs" if "CHR 0x0D \<in> set bs"
    using r that by (simp add: universal_newlines_changes)
  from r exact changed same show ?thesis by blast
qed

theorem read_prompt_content_returns_text_witness:
  "read_prompt_content (sample_world (Directory two_prompts)) ''create_prd'' =
     Inr ''Write the PRD.''
   \<and> read_prompt_content (sample_world (Directory mixed_dir)) ''crlf'' =
     Inr [CHR ''a'', CHR 0x0A, CHR ''b'']"
proof -
  have "CHR 0x0D \<notin> set ''Write the PRD.''" by simp
  with read_prompt_content_returns_text
    [OF safe_create_prd _ valid_prd, of "sample_world (Directory two_prompts)"]
  have "read_prompt_content (sample_world (Directory two_prompts)) ''create_prd'' =
      Inr ''Write the PRD.''"
    by (simp add: lookup_two_create_prd)
  moreover from read_prompt_content_returns_text [OF safe_crlf _ valid_crlf, of
      "sample_world (Directory mixed_dir)"]
  have "read_prompt_content (sample_world (Directory mixed_dir)) ''crlf'' =
      Inr [CHR ''a'', CHR 0x0A, CHR ''b'']"
    by (simp add: lookup_mixed_crlf)
  ultimately show ?thesis by simp
qed

subsection \<open>Dispatcher\<close>

text \<open>
  The block shared by the two fetch branches: every loader exception is of a class the
  inner \<open>except\<close> lists (\<open>UnicodeDecodeError\<close> through \<open>ValueError\<close>), so the block
  always returns one text.
\<close>

lemma fetch_block:
  "try_except
     (case read_prompt_content w s of Inl e \<Rightarrow> Inl e | Inr prompt_content \<Rightarrow> Inr (f prompt_content))
     [ValueError, FileNotFoundError, IOError] h =
   (case read_prompt_content w s of Inl e \<Rightarrow> h e | Inr prompt_content \<Rightarrow> Inr (f prompt_content))"
  using read_prompt_content_cases [of w s] by (auto simp: try_except_def)

lemma fetch_text:
  "(case read_prompt_content w s of
      Inl e \<Rightarrow> Inr [TextContent ''text'' (''Error: '' @ exn_str e)]
    | Inr prompt_content \<Rightarrow> Inr [TextContent ''text'' (prompt_text s prompt_content)]) =
   Inr [TextContent ''text''
     (case read_prompt_content w s of
        Inl e \<Rightarrow> ''Error: '' @ exn_str e
      | Inr prompt_content \<Rightarrow> prompt_text s prompt_content)]"
  by (cases "read_prompt_content w s") simp_all

lemma not_prefix_list: "\<not> prefix ''get_prompt_'' ''list_available_prompts''"
  by simp

lemma call_tool_try_by_name_str:
  assumes "arguments ''task_name'' = Some (PyStr s)" and "s \<noteq> []"
  shows "call_tool_try w ''get_prompt_by_name'' arguments =
    Inr [TextContent ''text''
      (case read_prompt_content w s of
         Inl e \<Rightarrow> ''Error: '' @ exn_str e
       | Inr prompt_content \<Rightarrow> prompt_text s prompt_content)]"
  using assms by (simp add: call_tool_try_def fetch_block split: sum.splits)

lemma call_tool_try_missing:
  assumes "arguments ''task_name'' = None \<or> (\<exists>v. arguments ''task_name'' = Some v \<and> \<not> truthy v)"
  shows "call_tool_try w ''get_prompt_by_name'' arguments =
    Inr [TextContent ''text'' ''Error: task_name parameter is required'']"
  using assms by (auto simp: call_tool_try_def)

lemma call_tool_try_not_str:
  assumes "arguments ''task_name'' = Some v" and "truthy v" and "\<forall>s. v \<noteq> PyStr s"
  shows "call_tool_try w ''get_prompt_by_name'' arguments = Inl (Exn TypeError (type_error_str w v))"
  using assms by (cases v) (simp_all add: call_tool_try_def try_except_def)

lemma call_tool_try_prefix:
  assumes "prefix ''get_prompt_'' name" and "name \<noteq> ''get_prompt_by_name''"
  shows "call_tool_try w name arguments =
    Inr [TextContent ''text''
      (case read_prompt_content w (drop (length ''get_prompt_'') name) of
         Inl e \<Rightarrow> ''Error: '' @ exn_str e
       | Inr prompt_content \<Rightarrow> prompt_text (drop (length ''get_prompt_'') name) prompt_content)]"
proof -
  from assms(1) have "name \<noteq> ''list_available_prompts''"
    using not_prefix_list by blast
  with assms show ?thesis
    unfolding call_tool_try_def Let_def
    by (simp only: if_False if_True fetch_block fetch_text)
qed

lemma call_tool_try_unknown:
  assumes "name \<noteq> ''list_available_prompts''" and "name \<noteq> ''get_prompt_by_name''"
    and "\<not> prefix ''get_prompt_'' name"
  shows "call_tool_try w name arguments =
    Inr [TextContent ''text'' (''Error: Unknown tool '' @ [CHR 0x27] @ name @ [CHR 0x27])]"
  using assms unfolding call_tool_try_def by (simp only: if_False)

lemma call_tool_try_list:
  "\<exists>t. call_tool_try w ''list_available_prompts'' arguments = Inr [TextContent ''text'' t]"
  by (simp add: call_tool_try_def Let_def)

text \<open>The outer handler: a returned value passes, any exception becomes a text.\<close>

lemma call_tool_Inr:
  "call_tool_try w name arguments = Inr r \<Longrightarrow> call_tool w name arguments = Inr r"
  by (simp add: call_tool_def try_except_def)

lemma call_tool_Inl:
  "call_tool_try w name arguments = Inl e \<Longrightarrow>
     call_tool w name arguments = Inr [TextContent ''text'' (''Unexpected error: '' @ exn_str e)]"
  by (simp add: call_tool_def try_except_def)

lemma call_tool_try_cases:
  "(\<exists>t. call_tool_try w name arguments = Inr [TextContent ''text'' t])
   \<or> (\<exists>e. call_tool_try w name arguments = Inl e)"
proof -
  consider (list) "name = ''list_available_prompts''"
    | (by_name) "name = ''get_prompt_by_name''"
    | (pre) "name \<noteq> ''get_prompt_by_name''" "prefix ''get_prompt_'' name"
    | (unknown) "name \<noteq> ''list_available_prompts''" "name \<noteq> ''get_prompt_by_name''"
        "\<not> prefix ''get_prompt_'' name"
    by blast
  then show ?thesis
  proof cases
    case list
    then show ?thesis using call_tool_try_list by simp
  next
    case by_name
    show ?thesis
    proof (cases "arguments ''task_name''")
      case None
      then show ?thesis unfolding by_name by (simp add: call_tool_try_missing)
    next
      case (Some v)
      show ?thesis
      proof (cases "truthy v")
        case False
        with Some show ?thesis unfolding by_name by (simp add: call_tool_try_missing)
      next
        case True
        show ?thesis
        proof (cases "\<exists>s. v = PyStr s")
          case True
          then obtain s where "v = PyStr s" by blast
          with Some \<open>truthy v\<close> show ?thesis
            unfolding by_name by (simp add: call_tool_try_by_name_str)
        next
          case False
          with Some True show ?thesis
            unfolding by_name by (simp add: call_tool_try_not_str)
        qed
      qed
    qed
  next
    case pre
    then show ?thesis by (simp add: call_tool_try_prefix)
  next
    case unknown
    then show ?thesis by (simp add: call_tool_try_unknown)
  qed
qed

lemma call_tool_by_name_str:
  assumes "arguments ''task_name'' = Some (PyStr s)" and "s \<noteq> []"
  shows "call_tool w ''get_prompt_by_name'' arguments =
    Inr [TextContent ''text''
      (case read_prompt_content w s of
         Inl e \<Rightarrow> ''Error: '' @ exn_str e
       | Inr prompt_content \<Rightarrow> prompt_text s prompt_content)]"
  using assms by (intro call_tool_Inr call_tool_try_by_name_str)

text \<open>
  What the \<open>get_prompt_by_name\<close> branch answers for a string that is not empty: the
  three texts of the loader's own failures behind \<open>Error: \<close>, and a loaded content
  behind its header.
\<close>

lemma call_tool_by_name_answers:
  assumes "arguments ''task_name'' = Some (PyStr s)" and "s \<noteq> []"
  shows "(\<not> is_safe_task_name s \<longrightarrow>
           call_tool w ''get_prompt_by_name'' arguments =
             Inr [TextContent ''text'' (''Error: Invalid task name: '' @ s)])
      \<and> (is_safe_task_name s
            \<and> (dir_lookup w (s @ ''.txt'') = None
               \<or> dir_lookup w (s @ ''.txt'') = Some NonRegular
               \<or> dir_lookup w (s @ ''.txt'') = Some DanglingLink) \<longrightarrow>
           call_tool w ''get_prompt_by_name'' arguments =
             Inr [TextContent ''text'' (''Error: Prompt not found for task: '' @ s)])
      \<and> (is_safe_task_name s \<and> dir_lookup w (s @ ''.txt'') = Some (RegularFile Unreadable) \<longrightarrow>
           call_tool w ''get_prompt_by_name'' arguments =
             Inr [TextContent ''text'' (''Error: Error reading prompt file for task: '' @ s)])
      \<and> (\<forall>c. read_prompt_content w s = Inr c \<longrightarrow>
           call_tool w ''get_prompt_by_name'' arguments =
             Inr [TextContent ''text''
               (''Prompt for '' @ [CHR 0x27] @ s @ [CHR 0x27] @ '':\<newline>\<newline>'' @ c)])"
proof (intro conjI allI impI)
  have answer: "call_tool w ''get_prompt_by_name'' arguments =
      Inr [TextContent ''text''
        (case read_prompt_content w s of
           Inl e \<Rightarrow> ''Error: '' @ exn_str e
         | Inr prompt_content \<Rightarrow> prompt_text s prompt_content)]"
    using assms by (rule call_tool_by_name_str)
  {
    assume "\<not> is_safe_task_name s"
    with answer show "call_tool w ''get_prompt_by_name'' arguments =
        Inr [TextContent ''text'' (''Error: Invalid task name: '' @ s)]"
      by (simp add: read_prompt_content_invalid)
  next
    assume "is_safe_task_name s
        \<and> (dir_lookup w (s @ ''.txt'') = None
           \<or> dir_lookup w (s @ ''.txt'') = Some NonRegular
           \<or> dir_lookup w (s @ ''.txt'') = Some DanglingLink)"
    then have "read_prompt_content w s =
        Inl (Exn FileNotFoundError (''Prompt not found for task: '' @ s))"
      by (intro read_prompt_content_not_found) blast+
    with answer show "call_tool w ''get_prompt_by_name'' arguments =
        Inr [TextContent ''text'' (''Error: Prompt not found for task: '' @ s)]"
      by simp
  next
    assume "is_safe_task_name s \<and> dir_lookup w (s @ ''.txt'') = Some (RegularFile Unreadable)"
    then have "read_prompt_content w s =
        Inl (Exn IOError (''Error reading prompt file for task: '' @ s))"
      by (intro read_prompt_content_unreadable) simp_all
    with answer show "call_tool w ''get_prompt_by_name'' arguments =
        Inr [TextContent ''text'' (''Error: Error reading prompt file for task: '' @ s)]"
      by simp
  next
    fix c assume "read_prompt_content w s = Inr c"
    with answer show "call_tool w ''get_prompt_by_name'' arguments =
        Inr [TextContent ''text''
          (''Prompt for '' @ [CHR 0x27] @ s @ [CHR 0x27] @ '':\<newline>\<newline>'' @ c)]"
      by (simp add: prompt_text_def)
  }
qed

lemma dir_lookup_sample:
  "length f \<le> 255 \<Longrightarrow> dir_lookup (sample_world (Directory es)) f = map_of es f"
  by (simp add: dir_lookup_def sample_world_def)

lemma read_mixed_create_prd:
  "read_prompt_content (sample_world (Directory mixed_dir)) ''create_prd'' =
     Inr ''Write the PRD.''"
proof -
  have "read_prompt_content (sample_world (Directory mixed_dir)) ''create_prd'' =
      Inr (universal_newlines ''Write the PRD.'')"
    by (rule read_prompt_content_text [OF safe_create_prd _ valid_prd])
      (simp add: dir_lookup_sample mixed_dir_def)
  then show ?thesis by simp
qed

lemma read_mixed_bad:
  "read_prompt_content (sample_world (Directory mixed_dir)) ''bad'' =
     Inl (Exn UnicodeDecodeError
           (decode_error_str (sample_world (Directory mixed_dir)) [CHR 0xFF]))"
  by (rule read_prompt_content_undecodable [OF safe_bad _ not_valid_ff])
    (simp add: lookup_mixed_bad)

lemma safe_long_name: "is_safe_task_name (replicate 252 CHR ''a'')"
  by (simp add: is_safe_task_name_iff_class list_all_iff word_class_def)

lemma lookup_long_name:
  "dir_lookup (sample_world (Directory mixed_dir)) (replicate 252 CHR ''a'' @ ''.txt'') =
     Some StatError"
  by (simp add: dir_lookup_def sample_world_def)

lemma no_entry_long_name: "map_of mixed_dir (replicate 252 CHR ''a'' @ ''.txt'') = None"
proof -
  have "\<forall>k \<in> fst ` set mixed_dir. length k < 256"
    by (simp add: mixed_dir_def)
  moreover have "length (replicate 252 CHR ''a'' @ ''.txt'') = 256"
    by simp
  ultimately have "replicate 252 CHR ''a'' @ ''.txt'' \<notin> fst ` set mixed_dir"
    by (metis less_irrefl)
  then show ?thesis by (simp add: map_of_eq_None_iff)
qed

text \<open>
  Claim C5. The mapping of the three failure kinds and of a loaded content holds where
  the loader fails in one of its own three ways (\<open>call_tool_by_name_answers\<close>). It
  breaks where a read failure leaves the loader unwrapped, the defect of claim C2. For
  the file \<open>bad.txt\<close>, which exists and cannot be read as UTF-8, the answer is
  \<open>Error: \<close> and the codec's message, not \<open>Error reading prompt file for task: bad\<close>.
  For a valid name of 252 characters, for which no file exists, \<open>exists()\<close> raises
  \<open>ENAMETOOLONG\<close> outside the \<open>try\<close> and the answer is \<open>Error: \<close> and the message of
  the operating system, not \<open>Prompt not found for task: ...\<close>.
\<close>

theorem call_tool_by_name_unwrapped_failures:
  "is_safe_task_name ''bad''
   \<and> dir_lookup (sample_world (Directory mixed_dir)) ''bad.txt'' =
       Some (RegularFile (Bytes [CHR 0xFF]))
   \<and> call_tool (sample_world (Directory mixed_dir)) ''get_prompt_by_name''
         [''task_name'' \<mapsto> PyStr ''bad''] =
       Inr [TextContent ''text''
             (''Error: '' @ decode_error_str (sample_world (Directory mixed_dir)) [CHR 0xFF])]
   \<and> call_tool (sample_world (Directory mixed_dir)) ''get_prompt_by_name''
         [''task_name'' \<mapsto> PyStr ''bad''] \<noteq>
       Inr [TextContent ''text'' ''Error: Error reading prompt file for task: bad'']
   \<and> is_safe_task_name (replicate 252 CHR ''a'')
   \<and> map_of mixed_dir (replicate 252 CHR ''a'' @ ''.txt'') = None
   \<and> call_tool (sample_world (Directory mixed_dir)) ''get_prompt_by_name''
         [''task_name'' \<mapsto> PyStr (replicate 252 CHR ''a'')] =
       Inr [TextContent ''text''
             (''Error: '' @ os_error_str (sample_world (Directory mixed_dir))
                (replicate 252 CHR ''a'' @ ''.txt''))]
   \<and> call_tool (sample_world (Directory mixed_dir)) ''get_prompt_by_name''
         [''task_name'' \<mapsto> PyStr (replicate 252 CHR ''a'')] \<noteq>
       Inr [TextContent ''text''
             (''Error: Prompt not found for task: '' @ replicate 252 CHR ''a'')]"
proof -
  let ?w = "sample_world (Directory mixed_dir)"
  let ?long = "replicate 252 CHR ''a''"
  have bad: "call_tool ?w ''get_prompt_by_name'' [''task_name'' \<mapsto> PyStr ''bad''] =
      Inr [TextContent ''text'' (''Error: '' @ decode_error_str ?w [CHR 0xFF])]"
    using call_tool_by_name_str [of "[''task_name'' \<mapsto> PyStr ''bad'']" "''bad''" ?w]
    by (simp add: read_mixed_bad)
  have bad_text: "''Error: '' @ decode_error_str ?w [CHR 0xFF] \<noteq>
      ''Error: Error reading prompt file for task: bad''"
    by (simp add: sample_world_def)
  have "read_prompt_content ?w ?long = Inl (Exn IOError (os_error_str ?w (?long @ ''.txt'')))"
    by (rule read_prompt_content_stat_error [OF safe_long_name lookup_long_name])
  then have long: "call_tool ?w ''get_prompt_by_name'' [''task_name'' \<mapsto> PyStr ?long] =
      Inr [TextContent ''text'' (''Error: '' @ os_error_str ?w (?long @ ''.txt''))]"
    using call_tool_by_name_str [of "[''task_name'' \<mapsto> PyStr ?long]" ?long ?w]
    by simp
  have "os_error_str ?w (?long @ ''.txt'') =
      ''[Errno 36] File name too long: '' @ ?long @ ''.txt''"
    by (simp add: sample_world_def)
  then have long_text: "''Error: '' @ os_error_str ?w (?long @ ''.txt'') \<noteq>
      ''Error: Prompt not found for task: '' @ ?long"
    by simp
  from bad bad_text long long_text safe_bad lookup_mixed_bad safe_long_name no_entry_long_name
  show ?thesis by simp
qed

text \<open>
  Claim C7. Whatever the tool name and the arguments, \<open>call_tool\<close> returns one text
  content and raises nothing; an exception that leaves the \<open>try\<close> block (one that no
  branch handles, as the \<open>TypeError\<close> for a \<open>task_name\<close> that is not a string) is
  answered with \<open>Unexpected error: \<close> followed by its message.
\<close>

theorem call_tool_never_raises:
  "(\<exists>t. call_tool w name arguments = Inr [TextContent ''text'' t])
   \<and> (\<forall>e. call_tool_try w name arguments = Inl e \<longrightarrow>
         call_tool w name arguments =
           Inr [TextContent ''text'' (''Unexpected error: '' @ exn_str e)])"
proof
  from call_tool_try_cases [of w name arguments]
  show "\<exists>t. call_tool w name arguments = Inr [TextContent ''text'' t]"
  proof
    assume "\<exists>t. call_tool_try w name arguments = Inr [TextContent ''text'' t]"
    then obtain t where "call_tool_try w name arguments = Inr [TextContent ''text'' t]" ..
    then have "call_tool w name arguments = Inr [TextContent ''text'' t]"
      by (rule call_tool_Inr)
    then show ?thesis ..
  next
    assume "\<exists>e. call_tool_try w name arguments = Inl e"
    then obtain e where "call_tool_try w name arguments = Inl e" ..
    then have "call_tool w name arguments =
        Inr [TextContent ''text'' (''Unexpected error: '' @ exn_str e)]"
      by (rule call_tool_Inl)
    then show ?thesis ..
  qed
next
  show "\<forall>e. call_tool_try w name arguments = Inl e \<longrightarrow>
      call_tool w name arguments =
        Inr [TextContent ''text'' (''Unexpected error: '' @ exn_str e)]"
    by (simp add: call_tool_Inl)
qed

theorem call_tool_never_raises_witness:
  "call_tool_try (sample_world (Directory mixed_dir)) ''get_prompt_by_name''
       [''task_name'' \<mapsto> PyInt 5] =
     Inl (Exn TypeError ''expected string or bytes-like object'')
   \<and> call_tool (sample_world (Directory mixed_dir)) ''get_prompt_by_name''
       [''task_name'' \<mapsto> PyInt 5] =
     Inr [TextContent ''text'' ''Unexpected error: expected string or bytes-like object'']"
proof -
  let ?w = "sample_world (Directory mixed_dir)"
  have raised: "call_tool_try ?w ''get_prompt_by_name'' [''task_name'' \<mapsto> PyInt 5] =
      Inl (Exn TypeError ''expected string or bytes-like object'')"
    using call_tool_try_not_str [of "[''task_name'' \<mapsto> PyInt 5]" "PyInt 5" ?w]
    by (simp add: sample_world_def)
  with call_tool_never_raises [of ?w "''get_prompt_by_name''" "[''task_name'' \<mapsto> PyInt 5]"]
  show ?thesis by simp
qed

lemma call_tool_bare:
  "call_tool w ''get_prompt_'' arguments =
     Inr [TextContent ''text'' ''Error: Invalid task name: '']"
proof -
  have "\<not> is_safe_task_name (drop (length ''get_prompt_'') ''get_prompt_'')"
    by (simp add: is_safe_task_name_def)
  then have "read_prompt_content w (drop (length ''get_prompt_'') ''get_prompt_'') =
      Inl (Exn ValueError (''Invalid task name: '' @ drop (length ''get_prompt_'') ''get_prompt_''))"
    by (rule read_prompt_content_invalid)
  moreover have "call_tool w ''get_prompt_'' arguments =
      Inr [TextContent ''text''
        (case read_prompt_content w (drop (length ''get_prompt_'') ''get_prompt_'') of
           Inl e \<Rightarrow> ''Error: '' @ exn_str e
         | Inr prompt_content \<Rightarrow>
             prompt_text (drop (length ''get_prompt_'') ''get_prompt_'') prompt_content)]"
    by (intro call_tool_Inr call_tool_try_prefix) simp_all
  ultimately show ?thesis by simp
qed

text \<open>
  Claim C9. The tool name that is exactly the prefix \<open>get_prompt_\<close> takes the prefix
  branch with the empty task name, which the loader rejects: the answer is
  \<open>Error: Invalid task name: \<close>, and neither the unknown-tool text nor the text for a
  missing parameter.
\<close>

theorem call_tool_bare_prefix:
  "call_tool w ''get_prompt_'' arguments =
     Inr [TextContent ''text'' ''Error: Invalid task name: '']
   \<and> call_tool w ''get_prompt_'' arguments \<noteq>
     Inr [TextContent ''text'' (''Error: Unknown tool '' @ [CHR 0x27] @ ''get_prompt_'' @ [CHR 0x27])]
   \<and> call_tool w ''get_prompt_'' arguments \<noteq>
     Inr [TextContent ''text'' ''Error: task_name parameter is required'']"
  by (simp add: call_tool_bare)

theorem call_tool_bare_prefix_witness:
  "call_tool (sample_world Missing) ''get_prompt_'' Map.empty =
     Inr [TextContent ''text'' ''Error: Invalid task name: '']
   \<and> call_tool (sample_world (Directory mixed_dir)) ''get_prompt_''
       [''task_name'' \<mapsto> PyStr ''create_prd''] =
     Inr [TextContent ''text'' ''Error: Invalid task name: '']"
  using call_tool_bare_prefix [of "sample_world Missing" Map.empty]
    call_tool_bare_prefix [of "sample_world (Directory mixed_dir)"
      "[''task_name'' \<mapsto> PyStr ''create_prd'']"]
  by (simp only: simp_thms)

text \<open>
  Claim C4, as stated, fails at the tool name \<open>get_prompt_\<close>: it begins with the prefix
  and is no generic operation, the recovered name is empty, and the prefix branch
  answers \<open>Invalid task name\<close> where \<open>get_prompt_by_name\<close> with the empty name
  answers that the parameter is required.
\<close>

theorem call_tool_bare_prefix_differs:
  "prefix ''get_prompt_'' ''get_prompt_''
   \<and> ''get_prompt_'' \<noteq> ''get_prompt_by_name''
   \<and> ''get_prompt_'' \<noteq> ''list_available_prompts''
   \<and> call_tool (sample_world (Directory mixed_dir)) ''get_prompt_'' Map.empty =
       Inr [TextContent ''text'' ''Error: Invalid task name: '']
   \<and> call_tool (sample_world (Directory mixed_dir)) ''get_prompt_by_name''
         [''task_name'' \<mapsto> PyStr (drop (length ''get_prompt_'') ''get_prompt_'')] =
       Inr [TextContent ''text'' ''Error: task_name parameter is required'']
   \<and> call_tool (sample_world (Directory mixed_dir)) ''get_prompt_'' Map.empty \<noteq>
       call_tool (sample_world (Directory mixed_dir)) ''get_prompt_by_name''
         [''task_name'' \<mapsto> PyStr (drop (length ''get_prompt_'') ''get_prompt_'')]"
proof -
  let ?w = "sample_world (Directory mixed_dir)"
  let ?args = "[''task_name'' \<mapsto> PyStr (drop (length ''get_prompt_'') ''get_prompt_'')]"
  have "?args ''task_name'' = None \<or> (\<exists>v. ?args ''task_name'' = Some v \<and> \<not> truthy v)"
    by simp
  then have "call_tool ?w ''get_prompt_by_name'' ?args =
      Inr [TextContent ''text'' ''Error: task_name parameter is required'']"
    by (intro call_tool_Inr call_tool_try_missing)
  then show ?thesis by (simp add: call_tool_bare)
qed

text \<open>
  Claim C4, amended. For every tool name that begins with \<open>get_prompt_\<close>, has something
  after the prefix and is not \<open>get_prompt_by_name\<close>, \<open>call_tool\<close> answers, whatever
  the arguments, exactly as \<open>get_prompt_by_name\<close> answers for the task name that
  remains after the prefix. A name that is neither \<open>list_available_prompts\<close> nor
  \<open>get_prompt_by_name\<close> and does not begin with the prefix is answered with
  \<open>Error: Unknown tool 'name'\<close>.
\<close>

theorem call_tool_synthesized_name:
  "(prefix ''get_prompt_'' name \<and> name \<noteq> ''get_prompt_'' \<and> name \<noteq> ''get_prompt_by_name'' \<longrightarrow>
      call_tool w name arguments =
        call_tool w ''get_prompt_by_name''
          [''task_name'' \<mapsto> PyStr (drop (length ''get_prompt_'') name)])
   \<and> (name \<noteq> ''list_available_prompts'' \<and> name \<noteq> ''get_prompt_by_name''
        \<and> \<not> prefix ''get_prompt_'' name \<longrightarrow>
      call_tool w name arguments =
        Inr [TextContent ''text'' (''Error: Unknown tool '' @ [CHR 0x27] @ name @ [CHR 0x27])])"
proof (intro conjI impI)
  let ?t = "drop (length ''get_prompt_'') name"
  assume a: "prefix ''get_prompt_'' name \<and> name \<noteq> ''get_prompt_'' \<and> name \<noteq> ''get_prompt_by_name''"
  then obtain t where "name = ''get_prompt_'' @ t" by (auto simp: prefix_def)
  with a have "?t \<noteq> []" by auto
  then have "call_tool w ''get_prompt_by_name'' [''task_name'' \<mapsto> PyStr ?t] =
      Inr [TextContent ''text''
        (case read_prompt_content w ?t of
           Inl e \<Rightarrow> ''Error: '' @ exn_str e
         | Inr prompt_content \<Rightarrow> prompt_text ?t prompt_content)]"
    by (intro call_tool_Inr call_tool_try_by_name_str) simp_all
  moreover from a have "call_tool w name arguments =
      Inr [TextContent ''text''
        (case read_prompt_content w ?t of
           Inl e \<Rightarrow> ''Error: '' @ exn_str e
         | Inr prompt_content \<Rightarrow> prompt_text ?t prompt_content)]"
    by (intro call_tool_Inr call_tool_try_prefix) simp_all
  ultimately show "call_tool w name arguments =
      call_tool w ''get_prompt_by_name'' [''task_name'' \<mapsto> PyStr ?t]"
    by simp
next
  assume "name \<noteq> ''list_available_prompts'' \<and> name \<noteq> ''get_prompt_by_name''
      \<and> \<not> prefix ''get_prompt_'' name"
  then show "call_tool w name arguments =
      Inr [TextContent ''text'' (''Error: Unknown tool '' @ [CHR 0x27] @ name @ [CHR 0x27])]"
    by (intro call_tool_Inr call_tool_try_unknown) simp_all
qed

theorem call_tool_synthesized_name_witness:
  "call_tool (sample_world (Directory mixed_dir)) ''get_prompt_create_prd'' Map.empty =
     call_tool (sample_world (Directory mixed_dir)) ''get_prompt_by_name''
       [''task_name'' \<mapsto> PyStr ''create_prd'']
   \<and> call_tool (sample_world (Directory mixed_dir)) ''fetch'' Map.empty =
     Inr [TextContent ''text'' (''Error: Unknown tool '' @ [CHR 0x27] @ ''fetch'' @ [CHR 0x27])]"
proof
  let ?w = "sample_world (Directory mixed_dir)"
  show "call_tool ?w ''get_prompt_create_prd'' Map.empty =
      call_tool ?w ''get_prompt_by_name'' [''task_name'' \<mapsto> PyStr ''create_prd'']"
    using call_tool_synthesized_name [of "''get_prompt_create_prd''" ?w Map.empty] by simp
  show "call_tool ?w ''fetch'' Map.empty =
      Inr [TextContent ''text'' (''Error: Unknown tool '' @ [CHR 0x27] @ ''fetch'' @ [CHR 0x27])]"
    using call_tool_synthesized_name [of "''fetch''" ?w Map.empty] by simp
qed

subsection \<open>Tool listing\<close>

lemma get_available_prompts_safe:
  "n \<in> set (get_available_prompts w) \<Longrightarrow> is_safe_task_name n"
  by (simp add: get_available_prompts_def split: if_splits)

lemma tool_names_list_tools:
  "map tool_name (list_tools w) =
     ''list_available_prompts''
       # map (\<lambda>n. ''get_prompt_'' @ n) (get_available_prompts w)
       @ [''get_prompt_by_name'']"
  by (simp add: list_tools_def Let_def prompt_tool_def comp_def)

lemma length_list_tools:
  "length (list_tools w) = length (get_available_prompts w) + 2"
  by (simp add: list_tools_def Let_def)

lemma list_tools_middle:
  assumes "0 < i" and "i < length (list_tools w) - 1"
  shows "list_tools w ! i = prompt_tool (get_available_prompts w ! (i - 1))"
proof -
  from assms have "i - 1 < length (get_available_prompts w)"
    by (simp add: length_list_tools)
  with assms(1) show ?thesis
    by (cases i) (simp_all add: list_tools_def Let_def nth_append)
qed

text \<open>
  Claim C10. The tool list has two tools more than the catalog has names: first
  \<open>list_available_prompts\<close>, last \<open>get_prompt_by_name\<close>, and between them, in the
  sorted order of the catalog, one tool \<open>get_prompt_\<close> + name for each catalog name.
  Every catalog name passes the validator, so what follows the prefix in each of these
  tool names is a name the validator accepts.
\<close>

theorem list_tools_shape:
  "length (list_tools w) = length (get_available_prompts w) + 2
   \<and> tool_name (hd (list_tools w)) = ''list_available_prompts''
   \<and> tool_name (last (list_tools w)) = ''get_prompt_by_name''
   \<and> map tool_name (list_tools w) =
        ''list_available_prompts''
          # map (\<lambda>n. ''get_prompt_'' @ n) (get_available_prompts w)
          @ [''get_prompt_by_name'']
   \<and> sorted (get_available_prompts w)
   \<and> (\<forall>n \<in> set (get_available_prompts w). is_safe_task_name n)
   \<and> (\<forall>i. 0 < i \<and> i < length (list_tools w) - 1 \<longrightarrow>
          tool_name (list_tools w ! i) = ''get_prompt_'' @ get_available_prompts w ! (i - 1)
        \<and> is_safe_task_name (drop (length ''get_prompt_'') (tool_name (list_tools w ! i))))"
proof (intro conjI allI impI ballI)
  show "length (list_tools w) = length (get_available_prompts w) + 2"
    by (rule length_list_tools)
  show "tool_name (hd (list_tools w)) = ''list_available_prompts''"
    by (simp add: list_tools_def Let_def)
  show "tool_name (last (list_tools w)) = ''get_prompt_by_name''"
    by (simp add: list_tools_def Let_def)
  show "map tool_name (list_tools w) =
      ''list_available_prompts''
        # map (\<lambda>n. ''get_prompt_'' @ n) (get_available_prompts w)
        @ [''get_prompt_by_name'']"
    by (rule tool_names_list_tools)
  show "sorted (get_available_prompts w)"
    by (rule sorted_get_available_prompts)
next
  fix n assume "n \<in> set (get_available_prompts w)"
  then show "is_safe_task_name n" by (rule get_available_prompts_safe)
next
  fix i assume i: "0 < i \<and> i < length (list_tools w) - 1"
  then have mid: "list_tools w ! i = prompt_tool (get_available_prompts w ! (i - 1))"
    by (simp add: list_tools_middle)
  then show "tool_name (list_tools w ! i) = ''get_prompt_'' @ get_available_prompts w ! (i - 1)"
    by (simp add: prompt_tool_def)
  from i have "i - 1 < length (get_available_prompts w)"
    by (simp add: length_list_tools) arith
  then have "get_available_prompts w ! (i - 1) \<in> set (get_available_prompts w)"
    by (rule nth_mem)
  then have "is_safe_task_name (get_available_prompts w ! (i - 1))"
    by (rule get_available_prompts_safe)
  with mid show "is_safe_task_name (drop (length ''get_prompt_'') (tool_name (list_tools w ! i)))"
    by (simp add: prompt_tool_def)
qed

lemma catalog_two_prompts:
  "get_available_prompts (sample_world (Directory two_prompts)) =
     [''create_prd'', ''review_tasks'']"
  by (simp add: get_available_prompts_Directory sample_world_def two_prompts_def stem_def
      is_safe_task_name_iff_class word_class_def suffix_def)

theorem list_tools_shape_witness:
  "length (list_tools (sample_world (Directory two_prompts))) = 4
   \<and> map tool_name (list_tools (sample_world (Directory two_prompts))) =
       [''list_available_prompts'', ''get_prompt_create_prd'', ''get_prompt_review_tasks'',
        ''get_prompt_by_name'']
   \<and> list_all is_safe_task_name (get_available_prompts (sample_world (Directory two_prompts)))
   \<and> is_safe_task_name (drop (length ''get_prompt_'')
        (tool_name (list_tools (sample_world (Directory two_prompts)) ! 2)))"
proof -
  let ?w = "sample_world (Directory two_prompts)"
  note shape = list_tools_shape [of ?w]
  from shape have "length (list_tools ?w) = 4"
    by (simp add: catalog_two_prompts)
  moreover from shape have "map tool_name (list_tools ?w) =
      [''list_available_prompts'', ''get_prompt_create_prd'', ''get_prompt_review_tasks'',
       ''get_prompt_by_name'']"
    by (simp add: catalog_two_prompts)
  moreover from shape have "list_all is_safe_task_name (get_available_prompts ?w)"
    unfolding list_all_iff by blast
  moreover have "(0::nat) < 2 \<and> 2 < length (list_tools ?w) - 1"
    using \<open>length (list_tools ?w) = 4\<close> by simp
  with shape have "is_safe_task_name (drop (length ''get_prompt_'')
      (tool_name (list_tools ?w ! 2)))"
    by blast
  ultimately show ?thesis by blast
qed

text \<open>
  Claim C8. The tool name \<open>get_prompt_by_name\<close> is always taken by the generic branch,
  which is tested before the prefix: for every argument dictionary its answer is the one
  the \<open>task_name\<close> argument decides. Without the argument, or with a false one, that is
  the text that the parameter is required; with a string that is not empty it is the
  fetch of that very name; with any other true value it is the text for the
  \<open>TypeError\<close>. This holds in every world: also where a file \<open>by_name.txt\<close> exists, so
  that the tool list names \<open>get_prompt_by_name\<close> a second time for it. Without the
  argument the answer is never a content under the header for \<open>by_name\<close>.
\<close>

theorem call_tool_by_name_generic:
  "(arguments ''task_name'' = None
      \<or> (\<exists>v. arguments ''task_name'' = Some v \<and> \<not> truthy v) \<longrightarrow>
      call_tool w ''get_prompt_by_name'' arguments =
        Inr [TextContent ''text'' ''Error: task_name parameter is required''])
   \<and> (\<forall>s. arguments ''task_name'' = Some (PyStr s) \<and> s \<noteq> [] \<longrightarrow>
        call_tool w ''get_prompt_by_name'' arguments =
          Inr [TextContent ''text''
            (case read_prompt_content w s of
               Inl e \<Rightarrow> ''Error: '' @ exn_str e
             | Inr prompt_content \<Rightarrow> prompt_text s prompt_content)])
   \<and> (\<forall>v. arguments ''task_name'' = Some v \<and> truthy v \<and> (\<forall>s. v \<noteq> PyStr s) \<longrightarrow>
        call_tool w ''get_prompt_by_name'' arguments =
          Inr [TextContent ''text'' (''Unexpected error: '' @ type_error_str w v)])
   \<and> (arguments ''task_name'' = None \<longrightarrow>
        (\<forall>c. call_tool w ''get_prompt_by_name'' arguments \<noteq>
           Inr [TextContent ''text'' (prompt_text ''by_name'' c)]))
   \<and> tool_name (prompt_tool ''by_name'') = ''get_prompt_by_name''
   \<and> (\<forall>es. prompts_dir w = Directory es \<and> ''by_name.txt'' \<in> fst ` set es \<longrightarrow>
        prompt_tool ''by_name'' \<in> set (list_tools w))"
proof (intro conjI allI impI)
  assume "arguments ''task_name'' = None
      \<or> (\<exists>v. arguments ''task_name'' = Some v \<and> \<not> truthy v)"
  then show "call_tool w ''get_prompt_by_name'' arguments =
      Inr [TextContent ''text'' ''Error: task_name parameter is required'']"
    by (intro call_tool_Inr call_tool_try_missing)
next
  fix s assume "arguments ''task_name'' = Some (PyStr s) \<and> s \<noteq> []"
  then show "call_tool w ''get_prompt_by_name'' arguments =
      Inr [TextContent ''text''
        (case read_prompt_content w s of
           Inl e \<Rightarrow> ''Error: '' @ exn_str e
         | Inr prompt_content \<Rightarrow> prompt_text s prompt_content)]"
    by (intro call_tool_by_name_str) simp_all
next
  fix v assume "arguments ''task_name'' = Some v \<and> truthy v \<and> (\<forall>s. v \<noteq> PyStr s)"
  then have "call_tool_try w ''get_prompt_by_name'' arguments =
      Inl (Exn TypeError (type_error_str w v))"
    by (intro call_tool_try_not_str) simp_all
  then show "call_tool w ''get_prompt_by_name'' arguments =
      Inr [TextContent ''text'' (''Unexpected error: '' @ type_error_str w v)]"
    using call_tool_Inl [of w "''get_prompt_by_name''" arguments] by simp
next
  fix c assume "arguments ''task_name'' = None"
  then have "call_tool w ''get_prompt_by_name'' arguments =
      Inr [TextContent ''text'' ''Error: task_name parameter is required'']"
    by (intro call_tool_Inr call_tool_try_missing) simp
  then show "call_tool w ''get_prompt_by_name'' arguments \<noteq>
      Inr [TextContent ''text'' (prompt_text ''by_name'' c)]"
    by (simp add: prompt_text_def)
next
  show "tool_name (prompt_tool ''by_name'') = ''get_prompt_by_name''"
    by (simp add: prompt_tool_def)
next
  fix es
  assume "prompts_dir w = Directory es \<and> ''by_name.txt'' \<in> fst ` set es"
  moreover have "is_safe_task_name ''by_name''"
    by (simp add: is_safe_task_name_iff_class word_class_def)
  ultimately have "''by_name'' \<in> set (get_available_prompts w)"
    by (simp add: set_get_available_prompts)
  then show "prompt_tool ''by_name'' \<in> set (list_tools w)"
    by (simp add: list_tools_def Let_def)
qed

theorem call_tool_by_name_generic_witness:
  "dir_lookup (sample_world (Directory mixed_dir)) ''by_name.txt'' =
     Some (RegularFile (Bytes ''Shadowed.''))
   \<and> prompt_tool ''by_name'' \<in> set (list_tools (sample_world (Directory mixed_dir)))
   \<and> call_tool (sample_world (Directory mixed_dir)) ''get_prompt_by_name'' Map.empty =
     Inr [TextContent ''text'' ''Error: task_name parameter is required'']
   \<and> call_tool (sample_world (Directory mixed_dir)) ''get_prompt_by_name''
       [''task_name'' \<mapsto> PyStr ''create_prd''] =
     Inr [TextContent ''text'' (prompt_text ''create_prd'' ''Write the PRD.'')]
   \<and> call_tool (sample_world (Directory mixed_dir)) ''get_prompt_by_name''
       [''task_name'' \<mapsto> PyInt 5] =
     Inr [TextContent ''text'' ''Unexpected error: expected string or bytes-like object'']"
proof -
  let ?w = "sample_world (Directory mixed_dir)"
  have entry: "dir_lookup ?w ''by_name.txt'' = Some (RegularFile (Bytes ''Shadowed.''))"
    by (simp add: dir_lookup_def sample_world_def mixed_dir_def)
  have dir: "prompts_dir ?w = Directory mixed_dir \<and> ''by_name.txt'' \<in> fst ` set mixed_dir"
    by (simp add: sample_world_def mixed_dir_def)
  from call_tool_by_name_generic [of Map.empty ?w] dir
  have listed: "prompt_tool ''by_name'' \<in> set (list_tools ?w)"
    and absent: "call_tool ?w ''get_prompt_by_name'' Map.empty =
      Inr [TextContent ''text'' ''Error: task_name parameter is required'']"
    by simp_all
  from call_tool_by_name_generic [of "[''task_name'' \<mapsto> PyStr ''create_prd'']" ?w]
  have named: "call_tool ?w ''get_prompt_by_name'' [''task_name'' \<mapsto> PyStr ''create_prd''] =
      Inr [TextContent ''text'' (prompt_text ''create_prd'' ''Write the PRD.'')]"
    by (simp add: read_mixed_create_prd)
  from call_tool_by_name_generic [of "[''task_name'' \<mapsto> PyInt 5]" ?w]
  have other: "call_tool ?w ''get_prompt_by_name'' [''task_name'' \<mapsto> PyInt 5] =
      Inr [TextContent ''text'' ''Unexpected error: expected string or bytes-like object'']"
    by (simp add: sample_world_def)
  from entry listed absent named other show ?thesis by (simp only: simp_thms)
qed

end
